theory Spec2Isabelle
  imports Main
begin

section \<open>The store's error type: \<^verbatim>\<open>server/services/store/store.go\<close>\<close>

text \<open>
  The file declares the interface \<^verbatim>\<open>Store\<close> and implements one thing: the error type
  \<^verbatim>\<open>ErrNotFound\<close> with its constructor, its \<^verbatim>\<open>Error\<close> method and the predicate
  \<^verbatim>\<open>IsErrNotFound\<close>. The embedding follows these four declarations and the two
  functions of Go's standard library that they call, \<^verbatim>\<open>fmt.Sprintf\<close> and
  \<^verbatim>\<open>errors.As\<close>.
\<close>

subsection \<open>Error values\<close>

text \<open>
  \<^verbatim>\<open>type ErrNotFound struct { resource string }\<close>
\<close>

record ErrNotFound =
  resource :: string

text \<open>
  What \<^verbatim>\<open>errors.As\<close> finds when it looks for a way to unwrap an error, in the order of
  its type switch: the type has a method \<^verbatim>\<open>Unwrap() error\<close>, and this is the error the
  method returns (\<open>None\<close> for nil); or it has a method \<^verbatim>\<open>Unwrap() []error\<close>, and this is
  the slice the method returns, nil entries included; or it has neither. A type cannot
  have both methods.
\<close>

datatype 'e Unwrap_method =
    No_Unwrap
  | Unwrap_error "'e option"
  | Unwrap_errors "'e option list"

text \<open>
  A value of type \<^verbatim>\<open>*ErrNotFound\<close> is \<open>Some v\<close> for a pointer to the struct \<open>v\<close> and
  \<open>None\<close> for the nil pointer.

  A non-nil value of the interface type \<^verbatim>\<open>error\<close> is told apart by its dynamic type:
  \<^item> \<open>ErrNotFound_ptr p\<close>: the dynamic type is \<^verbatim>\<open>*ErrNotFound\<close> and the value is the
    pointer \<open>p\<close> (which may be the nil pointer: an interface that holds a typed nil
    pointer is not the nil interface);
  \<^item> \<open>Other_error m a u\<close>: any other dynamic type. Of such a value the model keeps what
    the code of this file and \<^verbatim>\<open>errors.As\<close> can observe: its message \<open>m\<close>; whether the
    type has a method \<^verbatim>\<open>As(any) bool\<close> that answers true when it is handed a target of
    type \<^verbatim>\<open>**ErrNotFound\<close> (\<open>a\<close>; the method is taken to return); and how it
    unwraps (\<open>u\<close>).
  A value of type \<^verbatim>\<open>error\<close> is an \<open>error option\<close>, \<open>None\<close> being the nil interface.

  The type is coinductive: an error may unwrap to itself, directly or through other
  errors, and such a value is the infinite tree that unwrapping it again and again
  produces.
\<close>

codatatype error =
    ErrNotFound_ptr "ErrNotFound option"
  | Other_error string bool "error Unwrap_method"

text \<open>
  The value \<^verbatim>\<open>fmt.Errorf\<close> returns for a format with one \<^verbatim>\<open>%w\<close> verb whose operand is
  the error \<open>e\<close>: a \<^verbatim>\<open>*fmt.wrapError\<close>, which has the formatted message, a method
  \<^verbatim>\<open>Unwrap() error\<close> that returns \<open>e\<close>, and no \<^verbatim>\<open>As\<close> method.
\<close>

definition wrapError :: "string \<Rightarrow> error \<Rightarrow> error" where
  "wrapError m e = Other_error m False (Unwrap_error (Some e))"

text \<open>
  The value \<^verbatim>\<open>fmt.Errorf\<close> returns for a format with several \<^verbatim>\<open>%w\<close> verbs whose
  operands are the errors \<open>es\<close>, in the order of the operands: a \<^verbatim>\<open>*fmt.wrapErrors\<close>,
  which has the formatted message, a method \<^verbatim>\<open>Unwrap() []error\<close> that returns \<open>es\<close>,
  and no \<^verbatim>\<open>As\<close> method. \<^verbatim>\<open>errors.Join\<close> of the non-nil errors \<open>es\<close> returns a value
  of the same shape, a \<^verbatim>\<open>*errors.joinError\<close>.
\<close>

definition wrapErrors :: "string \<Rightarrow> error list \<Rightarrow> error" where
  "wrapErrors m es = Other_error m False (Unwrap_errors (map Some es))"


subsection \<open>\<^verbatim>\<open>NewErrNotFound\<close> and \<^verbatim>\<open>Error\<close>\<close>

text \<open>
  \<^verbatim>\<open>func NewErrNotFound(resource string) *ErrNotFound {
    return &ErrNotFound{resource: resource}
  }\<close>
\<close>

definition NewErrNotFound :: "string \<Rightarrow> ErrNotFound option" where
  "NewErrNotFound r = Some \<lparr>resource = r\<rparr>"

text \<open>
  \<^verbatim>\<open>fmt.Sprintf\<close> on string operands, for the directives this file uses: a character
  other than \<^verbatim>\<open>%\<close> is copied, \<^verbatim>\<open>%s\<close> is replaced by the next operand, \<^verbatim>\<open>%%\<close> is
  a percent sign. The result is \<open>None\<close> for a format outside this fragment (another
  verb, a flag, a width, a missing or a surplus operand), which the model does not
  print.
\<close>

fun Sprintf :: "string \<Rightarrow> string list \<Rightarrow> string option" where
  "Sprintf [] [] = Some []"
| "Sprintf [] (a # as) = None"
| "Sprintf (c # fs) as =
     (if c \<noteq> CHR ''%'' then map_option ((#) c) (Sprintf fs as)
      else (case fs of
              [] \<Rightarrow> None
            | v # fs' \<Rightarrow>
                if v = CHR ''%'' then map_option ((#) v) (Sprintf fs' as)
                else if v = CHR ''s'' then
                  (case as of
                     [] \<Rightarrow> None
                   | a # as' \<Rightarrow> map_option ((@) a) (Sprintf fs' as'))
                else None))"

text \<open>
  \<^verbatim>\<open>func (nf *ErrNotFound) Error() string {
    return fmt.Sprintf("{%s} not found", nf.resource)
  }\<close>
  The method has a pointer receiver. On the nil pointer the read of \<^verbatim>\<open>nf.resource\<close>
  panics: the call returns no string, which is the result \<open>None\<close>.
\<close>

definition Error :: "ErrNotFound option \<Rightarrow> string option" where
  "Error nf =
     (case nf of
        None \<Rightarrow> None
      | Some v \<Rightarrow> Sprintf ''{%s} not found'' [resource v])"

subsection \<open>\<^verbatim>\<open>errors.As\<close> with a target of type \<^verbatim>\<open>**ErrNotFound\<close>\<close>

text \<open>
  \<^verbatim>\<open>errors.As(err, target)\<close> in the standard library (Go 1.20 and later) returns false
  on the nil error, checks the target and calls the traversal \<^verbatim>\<open>as\<close>:
  \<^verbatim>\<open>func as(err error, target any, targetVal reflectlite.Value, targetType reflectlite.Type) bool {
    for {
      if reflectlite.TypeOf(err).AssignableTo(targetType) {
        targetVal.Elem().Set(reflectlite.ValueOf(err))
        return true
      }
      if x, ok := err.(interface{ As(any) bool }); ok && x.As(target) {
        return true
      }
      switch x := err.(type) {
      case interface{ Unwrap() error }:
        err = x.Unwrap()
        if err == nil {
          return false
        }
      case interface{ Unwrap() []error }:
        for _, err := range x.Unwrap() {
          if err == nil {
            continue
          }
          if as(err, target, targetVal, targetType) {
            return true
          }
        }
        return false
      default:
        return false
      }
    }
  }\<close>
  \<^verbatim>\<open>IsErrNotFound\<close> calls \<^verbatim>\<open>errors.As\<close> with \<^verbatim>\<open>target = &nf\<close> for
  \<^verbatim>\<open>var nf *ErrNotFound\<close>: the target passes the checks, \<^verbatim>\<open>targetType\<close> is
  \<^verbatim>\<open>*ErrNotFound\<close>, and \<^verbatim>\<open>IsErrNotFound\<close> reads only the boolean. Before Go 1.20 the
  loop had the case \<^verbatim>\<open>Unwrap() error\<close> alone, which is this traversal on errors
  without a method \<^verbatim>\<open>Unwrap() []error\<close>.
\<close>

text \<open>\<^verbatim>\<open>reflectlite.TypeOf(err).AssignableTo(targetType)\<close> for the target type \<^verbatim>\<open>*ErrNotFound\<close>.\<close>

definition AssignableTo :: "error \<Rightarrow> bool" where
  "AssignableTo err =
     (case err of ErrNotFound_ptr p \<Rightarrow> True | Other_error m a u \<Rightarrow> False)"

text \<open>
  \<^verbatim>\<open>x, ok := err.(interface{ As(any) bool }); ok && x.As(target)\<close>.
  \<^verbatim>\<open>*ErrNotFound\<close> has no method \<^verbatim>\<open>As\<close>.
\<close>

definition As_method :: "error \<Rightarrow> bool" where
  "As_method err =
     (case err of ErrNotFound_ptr p \<Rightarrow> False | Other_error m a u \<Rightarrow> a)"

text \<open>
  The type switch on the \<^verbatim>\<open>Unwrap\<close> method. \<^verbatim>\<open>*ErrNotFound\<close> has no method \<^verbatim>\<open>Unwrap\<close>.
\<close>

definition Unwrap :: "error \<Rightarrow> error Unwrap_method" where
  "Unwrap err =
     (case err of ErrNotFound_ptr p \<Rightarrow> No_Unwrap | Other_error m a u \<Rightarrow> u)"

text \<open>
  The loop \<^verbatim>\<open>for _, err := range x.Unwrap()\<close> of the traversal, followed by its
  \<^verbatim>\<open>return false\<close>; \<open>f\<close> is the recursive call. A call that does not return (\<open>None\<close>)
  keeps the loop from returning.
\<close>

fun range_Unwrap :: "(error \<Rightarrow> bool option) \<Rightarrow> error option list \<Rightarrow> bool option" where
  "range_Unwrap f [] = Some False"
| "range_Unwrap f (None # errs) = range_Unwrap f errs"
| "range_Unwrap f (Some err # errs) =
     Option.bind (f err) (\<lambda>found. if found then Some True else range_Unwrap f errs)"

lemma range_Unwrap_mono [partial_function_mono]:
  assumes "\<And>x. mono_option (\<lambda>f. F f x)"
  shows "mono_option (\<lambda>f. range_Unwrap (F f) errs)"
proof (induction errs)
  case Nil
  show ?case by (simp add: option.const_mono)
next
  case (Cons a errs)
  show ?case
  proof (cases a)
    case None
    with Cons show ?thesis by simp
  next
    case (Some err)
    have "mono_option (\<lambda>f. Option.bind (F f err)
        (\<lambda>found. if found then Some True else range_Unwrap (F f) errs))"
      by (intro bind_mono assms Partial_Function.if_mono option.const_mono Cons)
    with Some show ?thesis by simp
  qed
qed

text \<open>
  The traversal \<^verbatim>\<open>as\<close>. The result is \<open>Some b\<close> when the call returns \<open>b\<close> and \<open>None\<close>
  when it does not return.
\<close>

partial_function (option) errors_as :: "error \<Rightarrow> bool option" where
  "errors_as err =
     (if AssignableTo err then Some True
      else if As_method err then Some True
      else (case Unwrap err of
              Unwrap_error x \<Rightarrow>
                (case x of None \<Rightarrow> Some False | Some err' \<Rightarrow> errors_as err')
            | Unwrap_errors errs \<Rightarrow> range_Unwrap errors_as errs
            | No_Unwrap \<Rightarrow> Some False))"

text \<open>\<^verbatim>\<open>errors.As\<close>: false on the nil error, the traversal otherwise.\<close>

definition errors_As :: "error option \<Rightarrow> bool option" where
  "errors_As err = (case err of None \<Rightarrow> Some False | Some e \<Rightarrow> errors_as e)"

subsection \<open>\<^verbatim>\<open>IsErrNotFound\<close>\<close>

text \<open>
  \<^verbatim>\<open>func IsErrNotFound(err error) bool {
    if err == nil {
      return false
    }
    var nf *ErrNotFound
    return errors.As(err, &nf)
  }\<close>
  The result is \<open>Some b\<close> when the call returns \<open>b\<close> and \<open>None\<close> when it does not return.
\<close>

definition IsErrNotFound :: "error option \<Rightarrow> bool option" where
  "IsErrNotFound err = (if err = None then Some False else errors_As err)"

subsection \<open>The error tree\<close>

text \<open>
  The errors an error unwraps to in one step: the non-nil result of \<^verbatim>\<open>Unwrap() error\<close>,
  or the non-nil entries of the result of \<^verbatim>\<open>Unwrap() []error\<close>, in their order.
\<close>

definition unwrapped :: "error \<Rightarrow> error list" where
  "unwrapped err =
     (case Unwrap err of
        No_Unwrap \<Rightarrow> []
      | Unwrap_error x \<Rightarrow> (case x of None \<Rightarrow> [] | Some err' \<Rightarrow> [err'])
      | Unwrap_errors errs \<Rightarrow> List.map_filter (\<lambda>x. x) errs)"

text \<open>
  The tree of an error, as the documentation of package \<^verbatim>\<open>errors\<close> defines it: the
  error itself, followed by the trees of the errors it unwraps to. \<open>in_tree e x\<close>: the
  error \<open>x\<close> is in the tree of \<open>e\<close>, that is, \<open>e\<close> is \<open>x\<close> or wraps \<open>x\<close>.
\<close>

inductive in_tree :: "error \<Rightarrow> error \<Rightarrow> bool" where
  self: "in_tree e e"
| wrapped: "e' \<in> set (unwrapped e) \<Longrightarrow> in_tree e' x \<Longrightarrow> in_tree e x"

code_pred in_tree .

text \<open>
  The tree of an error is finite: no path of unwrapping from it goes on for ever, so no
  error in it unwraps to itself, directly or through other errors.
\<close>

inductive finite_tree :: "error \<Rightarrow> bool" where
  "(\<And>e'. e' \<in> set (unwrapped e) \<Longrightarrow> finite_tree e') \<Longrightarrow> finite_tree e"

section \<open>The operations of the interface \<^verbatim>\<open>Store\<close>\<close>

text \<open>
  \<^verbatim>\<open>store.go\<close> declares the operations of the store and implements none of them: the
  implementations are in other packages of the repository. The lookups and inserts
  below follow the specification's description of the store; every definition that
  does so says it.
\<close>

subsection \<open>Entities\<close>

text \<open>
  Modelled from the spec: the struct \<^verbatim>\<open>model.Block\<close>, which \<^verbatim>\<open>store.go\<close> imports.
  "Block: a content node; has an identifier, a parent identifier, a root identifier, a
  type tag, and belongs to a board."
\<close>

record Block =
  Block_ID :: string
  Block_ParentID :: string
  Block_RootID :: string
  Block_Type :: string
  Block_BoardID :: string

text \<open>
  Modelled from the spec: the struct \<^verbatim>\<open>model.Board\<close>. "Board: a container of blocks;
  has an identifier, [...] and association with a team."
\<close>

record Board =
  Board_ID :: string
  Board_TeamID :: string

text \<open>
  Modelled from the spec: the struct \<^verbatim>\<open>model.User\<close>. "User: account entity; unique by
  identifier, email, and username; has a password credential; belongs to a team."
\<close>

record User =
  User_ID :: string
  User_Email :: string
  User_Username :: string
  User_Password :: string
  User_TeamID :: string

subsection \<open>The backing store\<close>

text \<open>
  Modelled from the spec: the state behind an implementation of \<^verbatim>\<open>Store\<close>, for the
  entity families of blocks, boards and users. "Identifiers are unique per entity
  family": each family is a map from identifiers to entities.
\<close>

record store_state =
  blocks :: "string \<rightharpoonup> Block"
  boards :: "string \<rightharpoonup> Board"
  users :: "string \<rightharpoonup> User"

subsection \<open>Lookups by identifier\<close>

text \<open>
  Modelled from the spec: the lookup that the implementations of \<^verbatim>\<open>GetBlock\<close>,
  \<^verbatim>\<open>GetBoard\<close> and \<^verbatim>\<open>GetUserByID\<close> share. "Every lookup-by-identifier operation
  either returns the entity or fails with a NotFound error kind"; the error is
  "NotFound(resource string): identifies which resource family/query failed to find a
  match". A Go result \<^verbatim>\<open>(*T, error)\<close> is a pair of a pointer and an error, each of
  which may be nil (\<open>None\<close>).
\<close>

definition lookup :: "string \<Rightarrow> (string \<rightharpoonup> 'a) \<Rightarrow> string \<Rightarrow> 'a option \<times> error option" where
  "lookup family table ident =
     (case table ident of
        None \<Rightarrow> (None, Some (ErrNotFound_ptr (NewErrNotFound family)))
      | Some v \<Rightarrow> (Some v, None))"

text \<open>
  Modelled from the spec: \<^verbatim>\<open>GetBlock(blockID string) (*model.Block, error)\<close>, declared
  at line 29 and implemented outside \<^verbatim>\<open>store.go\<close>.
\<close>

definition GetBlock :: "store_state \<Rightarrow> string \<Rightarrow> Block option \<times> error option" where
  "GetBlock s blockID = lookup ''block'' (blocks s) blockID"

text \<open>
  Modelled from the spec: \<^verbatim>\<open>GetBoard(id string) (*model.Board, error)\<close>, declared at
  line 79 and implemented outside \<^verbatim>\<open>store.go\<close>.
\<close>

definition GetBoard :: "store_state \<Rightarrow> string \<Rightarrow> Board option \<times> error option" where
  "GetBoard s ident = lookup ''board'' (boards s) ident"

text \<open>
  Modelled from the spec: \<^verbatim>\<open>GetUserByID(userID string) (*model.User, error)\<close>, declared
  at line 47 and implemented outside \<^verbatim>\<open>store.go\<close>.
\<close>

definition GetUserByID :: "store_state \<Rightarrow> string \<Rightarrow> User option \<times> error option" where
  "GetUserByID s userID = lookup ''user'' (users s) userID"

subsection \<open>Inserts\<close>

text \<open>
  Modelled from the spec: \<^verbatim>\<open>InsertBlock(block *model.Block, userID string) error\<close>,
  declared at line 23 and implemented outside \<^verbatim>\<open>store.go\<close>. The block is persisted
  under its identifier, with all its fields; the specification names no condition
  under which the insert fails. The result is the returned error and the store after
  the call.
\<close>

definition InsertBlock :: "store_state \<Rightarrow> Block \<Rightarrow> string \<Rightarrow> error option \<times> store_state" where
  "InsertBlock s block userID =
     (None, s\<lparr>blocks := (blocks s)(Block_ID block \<mapsto> block)\<rparr>)"

text \<open>
  Modelled from the spec:
  \<^verbatim>\<open>InsertBoard(board *model.Board, userID string) (*model.Board, error)\<close>, declared at
  line 74 and implemented outside \<^verbatim>\<open>store.go\<close>. The board is persisted under its
  identifier and returned.
\<close>

definition InsertBoard ::
  "store_state \<Rightarrow> Board \<Rightarrow> string \<Rightarrow> (Board option \<times> error option) \<times> store_state" where
  "InsertBoard s board userID =
     ((Some board, None), s\<lparr>boards := (boards s)(Board_ID board \<mapsto> board)\<rparr>)"


section \<open>Properties of \<^verbatim>\<open>IsErrNotFound\<close> and \<^verbatim>\<open>Error\<close>\<close>

subsection \<open>The traversal on the constructors\<close>

lemma AssignableTo_simps [simp]:
  "AssignableTo (ErrNotFound_ptr p) = True"
  "AssignableTo (Other_error m a u) = False"
  by (simp_all add: AssignableTo_def)

lemma As_method_simps [simp]:
  "As_method (ErrNotFound_ptr p) = False"
  "As_method (Other_error m a u) = a"
  by (simp_all add: As_method_def)

lemma Unwrap_simps [simp]:
  "Unwrap (ErrNotFound_ptr p) = No_Unwrap"
  "Unwrap (Other_error m a u) = u"
  by (simp_all add: Unwrap_def)

lemma map_filter_Some [simp]: "List.map_filter (\<lambda>x. x) (map Some es) = es"
  by (induction es) simp_all

lemma unwrapped_simps [simp]:
  "unwrapped (ErrNotFound_ptr p) = []"
  "unwrapped (Other_error m a No_Unwrap) = []"
  "unwrapped (Other_error m a (Unwrap_error None)) = []"
  "unwrapped (Other_error m a (Unwrap_error (Some e))) = [e]"
  "unwrapped (Other_error m a (Unwrap_errors errs)) = List.map_filter (\<lambda>x. x) errs"
  by (simp_all add: unwrapped_def)

lemma errors_as_ErrNotFound_ptr [simp]: "errors_as (ErrNotFound_ptr p) = Some True"
  by (subst errors_as.simps) simp

lemma errors_as_Other_error [simp]:
  "errors_as (Other_error m a u) =
     (if a then Some True
      else (case u of
              Unwrap_error x \<Rightarrow>
                (case x of None \<Rightarrow> Some False | Some err' \<Rightarrow> errors_as err')
            | Unwrap_errors errs \<Rightarrow> range_Unwrap errors_as errs
            | No_Unwrap \<Rightarrow> Some False))"
  by (subst errors_as.simps) simp


subsection \<open>The loop over the unwrapped errors\<close>

lemma range_Unwrap_returns:
  "(\<And>x. x \<in> set (List.map_filter (\<lambda>x. x) errs) \<Longrightarrow> \<exists>b. f x = Some b)
     \<Longrightarrow> \<exists>b. range_Unwrap f errs = Some b"
proof (induction errs)
  case Nil
  show ?case by auto
next
  case (Cons a errs)
  show ?case
  proof (cases a)
    case None
    with Cons show ?thesis by simp
  next
    case (Some err)
    with Cons.prems obtain b where b: "f err = Some b"
      by auto
    from Cons.IH Cons.prems Some obtain b' where "range_Unwrap f errs = Some b'"
      by auto
    with Some b show ?thesis by (cases b) auto
  qed
qed

lemma range_Unwrap_sound:
  "(\<And>x b. x \<in> set (List.map_filter (\<lambda>x. x) errs) \<Longrightarrow> f x = Some b \<Longrightarrow> b = Q x)
     \<Longrightarrow> range_Unwrap f errs = Some y
     \<Longrightarrow> y = (\<exists>x \<in> set (List.map_filter (\<lambda>x. x) errs). Q x)"
proof (induction errs)
  case Nil
  then show ?case by simp
next
  case (Cons a errs)
  show ?case
  proof (cases a)
    case None
    with Cons show ?thesis by simp
  next
    case (Some err)
    with Cons.prems(2) obtain found where found: "f err = Some found"
      and rest: "(if found then Some True else range_Unwrap f errs) = Some y"
      by (auto simp: bind_eq_Some_conv)
    from Cons.prems(1) [of err found] Some found have q: "found = Q err"
      by simp
    show ?thesis
    proof (cases found)
      case True
      with rest q Some show ?thesis by auto
    next
      case False
      with rest have "range_Unwrap f errs = Some y" by simp
      with Cons.IH Cons.prems(1) Some
      have "y = (\<exists>x \<in> set (List.map_filter (\<lambda>x. x) errs). Q x)"
        by auto
      with False q Some show ?thesis by auto
    qed
  qed
qed

subsection \<open>What the traversal computes\<close>

lemma in_tree_unfold:
  "in_tree e x \<longleftrightarrow> x = e \<or> (\<exists>e' \<in> set (unwrapped e). in_tree e' x)"
  by (auto intro: in_tree.intros elim: in_tree.cases)

lemma finite_tree_unfold:
  "finite_tree e \<longleftrightarrow> (\<forall>e' \<in> set (unwrapped e). finite_tree e')"
  by (auto intro: finite_tree.intros elim: finite_tree.cases)

text \<open>
  When the traversal returns, its answer is whether some error of the tree has the
  dynamic type \<^verbatim>\<open>*ErrNotFound\<close> or an \<^verbatim>\<open>As\<close> method that accepts the target.
\<close>

lemma errors_as_sound:
  assumes "errors_as e = Some b"
  shows "b = (\<exists>x. in_tree e x \<and> (AssignableTo x \<or> As_method x))"
proof (rule errors_as.raw_induct
    [where P = "\<lambda>e b. b = (\<exists>x. in_tree e x \<and> (AssignableTo x \<or> As_method x))",
      OF _ assms], goal_cases)
  case (1 f e b)
  let ?M = "\<lambda>x. AssignableTo x \<or> As_method x"
  show ?case
  proof (cases "?M e")
    case True
    with 1(2) have "b = True" by (auto split: if_splits)
    moreover from True have "\<exists>x. in_tree e x \<and> ?M x"
      by (blast intro: in_tree.self)
    ultimately show ?thesis by simp
  next
    case False
    then have tree: "(\<exists>x. in_tree e x \<and> ?M x) \<longleftrightarrow>
        (\<exists>e' \<in> set (unwrapped e). \<exists>x. in_tree e' x \<and> ?M x)"
      by (subst in_tree_unfold) blast
    show ?thesis
    proof (cases "Unwrap e")
      case No_Unwrap
      with False 1(2) tree show ?thesis by (simp add: unwrapped_def)
    next
      case (Unwrap_error x)
      show ?thesis
      proof (cases x)
        case None
        with Unwrap_error False 1(2) tree show ?thesis by (simp add: unwrapped_def)
      next
        case (Some e')
        with Unwrap_error False 1(2) have "f e' = Some b" by simp
        then have "b = (\<exists>x. in_tree e' x \<and> ?M x)" by (rule 1(1))
        with Unwrap_error Some tree show ?thesis by (simp add: unwrapped_def)
      qed
    next
      case (Unwrap_errors errs)
      with False 1(2) have "range_Unwrap f errs = Some b" by simp
      then have "b = (\<exists>e' \<in> set (List.map_filter (\<lambda>x. x) errs). \<exists>x. in_tree e' x \<and> ?M x)"
        by (rule range_Unwrap_sound [rotated]) (rule 1(1))
      with Unwrap_errors tree show ?thesis by (simp add: unwrapped_def)
    qed
  qed
qed

text \<open>On an error with a finite tree the traversal returns.\<close>

lemma errors_as_returns: "finite_tree e \<Longrightarrow> \<exists>b. errors_as e = Some b"
proof (induction rule: finite_tree.induct)
  case (1 e)
  show ?case
  proof (cases "AssignableTo e \<or> As_method e")
    case True
    then show ?thesis by (subst errors_as.simps) auto
  next
    case False
    show ?thesis
    proof (cases "Unwrap e")
      case No_Unwrap
      with False show ?thesis by (subst errors_as.simps) auto
    next
      case (Unwrap_error x)
      show ?thesis
      proof (cases x)
        case None
        with Unwrap_error False show ?thesis by (subst errors_as.simps) auto
      next
        case (Some e')
        with Unwrap_error have "e' \<in> set (unwrapped e)" by (simp add: unwrapped_def)
        then obtain b where "errors_as e' = Some b" using 1(2) by blast
        with Unwrap_error Some False show ?thesis by (subst errors_as.simps) auto
      qed
    next
      case (Unwrap_errors errs)
      have "\<exists>b. range_Unwrap errors_as errs = Some b"
      proof (rule range_Unwrap_returns)
        fix x assume "x \<in> set (List.map_filter (\<lambda>x. x) errs)"
        with Unwrap_errors have "x \<in> set (unwrapped e)" by (simp add: unwrapped_def)
        then show "\<exists>b. errors_as x = Some b" by (rule 1(2))
      qed
      with Unwrap_errors False show ?thesis by (subst errors_as.simps) auto
    qed
  qed
qed


lemma IsErrNotFound_Some: "IsErrNotFound (Some e) = errors_as e"
  by (simp add: IsErrNotFound_def errors_As_def)

lemma in_tree_simps [simp]:
  "in_tree (ErrNotFound_ptr p) x \<longleftrightarrow> x = ErrNotFound_ptr p"
  "in_tree (Other_error m a u) x \<longleftrightarrow>
     x = Other_error m a u \<or> (\<exists>e' \<in> set (unwrapped (Other_error m a u)). in_tree e' x)"
  by (subst in_tree_unfold, simp)+

lemma finite_tree_simps [simp]:
  "finite_tree (ErrNotFound_ptr p)"
  "finite_tree (Other_error m a u) \<longleftrightarrow>
     (\<forall>e' \<in> set (unwrapped (Other_error m a u)). finite_tree e')"
  by (subst finite_tree_unfold, simp)+

subsection \<open>The claims about \<^verbatim>\<open>IsErrNotFound\<close> and \<^verbatim>\<open>Error\<close>\<close>




text \<open>
  Claim C2, as stated: a non-nil error that is not an \<^verbatim>\<open>ErrNotFound\<close> and wraps none is
  never classified as not found. It fails on an error of another type whose \<^verbatim>\<open>As\<close>
  method accepts a \<^verbatim>\<open>**ErrNotFound\<close> target: the traversal asks that method before it
  unwraps, and returns true on its answer.
\<close>

theorem IsErrNotFound_other_counterexample:
  "\<not> (\<exists>x. in_tree (Other_error ''custom'' True No_Unwrap) x \<and> AssignableTo x)
   \<and> IsErrNotFound (Some (Other_error ''custom'' True No_Unwrap)) = Some True"
  by (simp add: IsErrNotFound_Some)

text \<open>
  Claim C2, amended. On a non-nil error whose tree holds no \<^verbatim>\<open>ErrNotFound\<close> and no
  error with an \<^verbatim>\<open>As\<close> method that accepts a \<^verbatim>\<open>**ErrNotFound\<close> target,
  \<^verbatim>\<open>IsErrNotFound\<close> never returns true, and it returns false when the tree is finite.
\<close>

theorem IsErrNotFound_other:
  assumes "\<not> (\<exists>x. in_tree e x \<and> AssignableTo x)"
    and "\<not> (\<exists>x. in_tree e x \<and> As_method x)"
  shows "IsErrNotFound (Some e) \<noteq> Some True
    \<and> (finite_tree e \<longrightarrow> IsErrNotFound (Some e) = Some False)"
proof (intro conjI impI)
  from assms have m: "\<not> (\<exists>x. in_tree e x \<and> (AssignableTo x \<or> As_method x))" by blast
  show "IsErrNotFound (Some e) \<noteq> Some True"
  proof
    assume "IsErrNotFound (Some e) = Some True"
    then have "errors_as e = Some True" by (simp add: IsErrNotFound_Some)
    from errors_as_sound [OF this] m show False by simp
  qed
  assume "finite_tree e"
  then obtain b where b: "errors_as e = Some b" using errors_as_returns by blast
  from errors_as_sound [OF this] m have "b = False" by simp
  with b show "IsErrNotFound (Some e) = Some False" by (simp add: IsErrNotFound_Some)
qed

text \<open>
  The theorem at the join of two database errors, the second wrapped by \<^verbatim>\<open>fmt.Errorf\<close>
  with \<^verbatim>\<open>%w\<close>.
\<close>

theorem IsErrNotFound_other_witness:
  "\<not> (\<exists>x. in_tree
         (wrapErrors ''join''
            [Other_error ''sql: connection is already closed'' False No_Unwrap,
             wrapError ''GetBlock'' (Other_error ''sql: no rows in result set'' False No_Unwrap)]) x
       \<and> AssignableTo x)
   \<and> \<not> (\<exists>x. in_tree
         (wrapErrors ''join''
            [Other_error ''sql: connection is already closed'' False No_Unwrap,
             wrapError ''GetBlock'' (Other_error ''sql: no rows in result set'' False No_Unwrap)]) x
       \<and> As_method x)
   \<and> finite_tree
       (wrapErrors ''join''
          [Other_error ''sql: connection is already closed'' False No_Unwrap,
           wrapError ''GetBlock'' (Other_error ''sql: no rows in result set'' False No_Unwrap)])
   \<and> IsErrNotFound
       (Some (wrapErrors ''join''
          [Other_error ''sql: connection is already closed'' False No_Unwrap,
           wrapError ''GetBlock'' (Other_error ''sql: no rows in result set'' False No_Unwrap)]))
     = Some False"
proof -
  let ?e = "wrapErrors ''join''
          [Other_error ''sql: connection is already closed'' False No_Unwrap,
           wrapError ''GetBlock'' (Other_error ''sql: no rows in result set'' False No_Unwrap)]"
  have h1: "\<not> (\<exists>x. in_tree ?e x \<and> AssignableTo x)"
    by (auto simp: wrapErrors_def wrapError_def)
  have h2: "\<not> (\<exists>x. in_tree ?e x \<and> As_method x)"
    by (auto simp: wrapErrors_def wrapError_def)
  have h3: "finite_tree ?e"
    by (simp add: wrapErrors_def wrapError_def)
  from IsErrNotFound_other [OF h1 h2] h3
  have "IsErrNotFound (Some ?e) = Some False" by blast
  with h1 h2 h3 show ?thesis by blast
qed

text \<open>
  Claim C3. For every resource \<open>r\<close>, the \<^verbatim>\<open>Error\<close> method of \<^verbatim>\<open>NewErrNotFound(r)\<close>
  returns, and the message is \<open>r\<close> between braces followed by \<^verbatim>\<open> not found\<close>.
\<close>

theorem Error_NewErrNotFound:
  "Error (NewErrNotFound r) = Some (''{'' @ r @ ''} not found'')"
  by (simp add: Error_def NewErrNotFound_def)

text \<open>
  Claim C4. \<^verbatim>\<open>IsErrNotFound\<close> returns, and returns false, on the nil error.
\<close>

theorem IsErrNotFound_nil:
  "IsErrNotFound None = Some False"
  by (simp add: IsErrNotFound_def)

section \<open>Properties of the lookups and inserts\<close>

lemma lookup_absent:
  "table ident = None \<Longrightarrow>
     fst (lookup family table ident) = None
     \<and> IsErrNotFound (snd (lookup family table ident)) = Some True"
  by (simp add: lookup_def IsErrNotFound_Some)

text \<open>
  Claim C5. A lookup of an identifier that is not in the backing store returns no entity
  and an error on which \<^verbatim>\<open>IsErrNotFound\<close> returns true (so the error is not nil, and the
  result is never a nil entity with a nil error): so for \<^verbatim>\<open>GetBlock\<close>, \<^verbatim>\<open>GetBoard\<close> and
  \<^verbatim>\<open>GetUserByID\<close>.
\<close>

theorem lookup_absent_NotFound:
  "(blocks s ident = None \<longrightarrow>
      fst (GetBlock s ident) = None \<and> IsErrNotFound (snd (GetBlock s ident)) = Some True)
   \<and> (boards s ident = None \<longrightarrow>
      fst (GetBoard s ident) = None \<and> IsErrNotFound (snd (GetBoard s ident)) = Some True)
   \<and> (users s ident = None \<longrightarrow>
      fst (GetUserByID s ident) = None
      \<and> IsErrNotFound (snd (GetUserByID s ident)) = Some True)"
  unfolding GetBlock_def GetBoard_def GetUserByID_def
  by (intro conjI impI; elim lookup_absent [THEN conjunct1] lookup_absent [THEN conjunct2])

text \<open>
  The theorem at a store that holds one block, \<^verbatim>\<open>b1\<close>, and the identifier \<^verbatim>\<open>b2\<close>.
\<close>

theorem lookup_absent_NotFound_witness:
  "blocks \<lparr>blocks = [''b1'' \<mapsto> \<lparr>Block_ID = ''b1'', Block_ParentID = [],
       Block_RootID = ''b1'', Block_Type = ''card'', Block_BoardID = ''B''\<rparr>],
     boards = Map.empty, users = Map.empty\<rparr> ''b2'' = None
   \<and> fst (GetBlock \<lparr>blocks = [''b1'' \<mapsto> \<lparr>Block_ID = ''b1'', Block_ParentID = [],
       Block_RootID = ''b1'', Block_Type = ''card'', Block_BoardID = ''B''\<rparr>],
     boards = Map.empty, users = Map.empty\<rparr> ''b2'') = None
   \<and> IsErrNotFound (snd (GetBlock \<lparr>blocks = [''b1'' \<mapsto> \<lparr>Block_ID = ''b1'',
       Block_ParentID = [], Block_RootID = ''b1'', Block_Type = ''card'',
       Block_BoardID = ''B''\<rparr>],
     boards = Map.empty, users = Map.empty\<rparr> ''b2'')) = Some True"
proof -
  let ?s = "\<lparr>blocks = [''b1'' \<mapsto> \<lparr>Block_ID = ''b1'', Block_ParentID = [],
       Block_RootID = ''b1'', Block_Type = ''card'', Block_BoardID = ''B''\<rparr>],
     boards = Map.empty, users = Map.empty\<rparr>"
  have h: "blocks ?s ''b2'' = None" by simp
  from lookup_absent_NotFound [of ?s "''b2''"] h
  have "fst (GetBlock ?s ''b2'') = None \<and> IsErrNotFound (snd (GetBlock ?s ''b2'')) = Some True"
    by blast
  with h show ?thesis by blast
qed

text \<open>
  Claim C6. Round trip: an insert returns no error and, fetched by its identifier from
  the store the insert leaves, the entity is the one inserted, equal on every field: so
  for \<^verbatim>\<open>InsertBlock\<close> with \<^verbatim>\<open>GetBlock\<close> and for \<^verbatim>\<open>InsertBoard\<close> with \<^verbatim>\<open>GetBoard\<close>.
\<close>

theorem insert_then_get:
  "fst (InsertBlock s block userID) = None
   \<and> GetBlock (snd (InsertBlock s block userID)) (Block_ID block) = (Some block, None)
   \<and> fst (InsertBoard s board userID) = (Some board, None)
   \<and> GetBoard (snd (InsertBoard s board userID)) (Board_ID board) = (Some board, None)"
  by (simp add: InsertBlock_def InsertBoard_def GetBlock_def GetBoard_def lookup_def)

end
